theory Spec2Isabelle
  imports Main
begin

section \<open>The account service: data\<close>

subsection \<open>JSON documents\<close>

text \<open>
  The value that \<^verbatim>\<open>request.get_json()\<close> yields and that \<^verbatim>\<open>jsonify\<close> takes. An object holds
  the items of the Python dict in order, each key once; numbers are the integers (a JSON
  number with a fraction is outside this model).
\<close>

datatype json =
    JNull
  | JBool bool
  | JNum int
  | JStr string
  | JArr "json list"
  | JObj "(string \<times> json) list"

subsection \<open>Decimal text of an integer\<close>

text \<open>Python's \<^verbatim>\<open>str(n)\<close> and the \<^verbatim>\<open>{id}\<close> of an f-string, for an integer.\<close>

definition digit_char :: "nat \<Rightarrow> char" where
  "digit_char d = ''0123456789'' ! d"

function str_nat :: "nat \<Rightarrow> string" where
  "str_nat n = (if n < 10 then [digit_char n] else str_nat (n div 10) @ [digit_char (n mod 10)])"
  by pat_completeness auto
termination
  by (relation "measure (\<lambda>n. n)") auto

declare str_nat.simps [simp del]

definition str_int :: "int \<Rightarrow> string" where
  "str_int i = (if i < 0 then CHR ''-'' # str_nat (nat (- i)) else str_nat (nat i))"

subsection \<open>Calendar dates\<close>

record date =
  year :: nat
  month :: nat
  day :: nat

definition digit_val :: "char \<Rightarrow> nat option" where
  "digit_val c = map_of
     [(CHR ''0'', 0), (CHR ''1'', 1), (CHR ''2'', 2), (CHR ''3'', 3), (CHR ''4'', 4),
      (CHR ''5'', 5), (CHR ''6'', 6), (CHR ''7'', 7), (CHR ''8'', 8), (CHR ''9'', 9)] c"

definition number2 :: "char \<Rightarrow> char \<Rightarrow> nat option" where
  "number2 a b =
     (case digit_val a of
        None \<Rightarrow> None
      | Some x \<Rightarrow> (case digit_val b of None \<Rightarrow> None | Some y \<Rightarrow> Some (10 * x + y)))"

definition is_leap :: "nat \<Rightarrow> bool" where
  "is_leap y = (y mod 4 = 0 \<and> (y mod 100 \<noteq> 0 \<or> y mod 400 = 0))"

definition days_in_month :: "nat \<Rightarrow> nat \<Rightarrow> nat" where
  "days_in_month y m =
     (if m = 2 then (if is_leap y then 29 else 28)
      else if m = 4 \<or> m = 6 \<or> m = 9 \<or> m = 11 then 30
      else 31)"

definition valid_date :: "nat \<Rightarrow> nat \<Rightarrow> nat \<Rightarrow> bool" where
  "valid_date y m d = (1 \<le> y \<and> 1 \<le> m \<and> m \<le> 12 \<and> 1 \<le> d \<and> d \<le> days_in_month y m)"

text \<open>
  Modelled from the spec: the date type of \<^verbatim>\<open>date_joined\<close> is the standard library's, not
  under src/. The spec fixes the wire form: "\<^verbatim>\<open>date_joined\<close> serializes as an ISO-format date
  string", as in its example \<^verbatim>\<open>"2022-01-01"\<close>. \<open>fromisoformat\<close> reads the ten characters
  \<^verbatim>\<open>YYYY-MM-DD\<close> of a date of the calendar, \<open>isoformat\<close> writes them.
\<close>

fun fromisoformat :: "string \<Rightarrow> date option" where
  "fromisoformat [y1, y2, y3, y4, s1, m1, m2, s2, d1, d2] =
     (if s1 = CHR ''-'' \<and> s2 = CHR ''-'' then
        (case number2 y1 y2 of
           None \<Rightarrow> None
         | Some yh \<Rightarrow>
             (case number2 y3 y4 of
                None \<Rightarrow> None
              | Some yl \<Rightarrow>
                  (case number2 m1 m2 of
                     None \<Rightarrow> None
                   | Some m \<Rightarrow>
                       (case number2 d1 d2 of
                          None \<Rightarrow> None
                        | Some d \<Rightarrow>
                            if valid_date (100 * yh + yl) m d
                            then Some \<lparr>year = 100 * yh + yl, month = m, day = d\<rparr>
                            else None))))
      else None)"
| "fromisoformat _ = None"

definition pad2 :: "nat \<Rightarrow> string" where
  "pad2 n = [digit_char (n div 10 mod 10), digit_char (n mod 10)]"

definition isoformat :: "date \<Rightarrow> string" where
  "isoformat d =
     pad2 (year d div 100) @ pad2 (year d mod 100) @ ''-'' @ pad2 (month d) @ ''-'' @ pad2 (day d)"

subsection \<open>Accounts and the table of accounts\<close>

text \<open>
  Modelled from the spec: the class \<^verbatim>\<open>Account\<close> of \<^verbatim>\<open>service/models.py\<close> is not under src/.
  The spec's data model: \<^verbatim>\<open>id\<close> an integer "assigned by the persistence layer on creation"
  (so an object that was not created yet has none), \<^verbatim>\<open>name\<close>, \<^verbatim>\<open>email\<close>, \<^verbatim>\<open>address\<close> and
  \<^verbatim>\<open>phone_number\<close> strings, \<^verbatim>\<open>date_joined\<close> a date. The field \<^verbatim>\<open>id\<close> is \<open>account_id\<close>
  here, \<open>id\<close> being the identity function of HOL.
\<close>

record account =
  account_id :: "int option"
  name :: string
  email :: string
  address :: string
  phone_number :: string
  date_joined :: date

text \<open>
  Modelled from the spec: the persisted state is "a single table/collection of Account rows
  keyed by id", which list returns "as an ordered sequence": the rows, oldest first.
\<close>

type_synonym db = "account list"

subsection \<open>Requests, responses, errors\<close>

text \<open>
  The paths and methods of the \<^verbatim>\<open>@app.route\<close> decorators of \<^verbatim>\<open>routes.py\<close>. The segment
  \<^verbatim>\<open><id>\<close> of \<^verbatim>\<open>/accounts/<id>\<close> is the integer it denotes, as the handlers' annotation
  \<^verbatim>\<open>id: int\<close> and the spec's data model have it.
\<close>

datatype http_method = GET | POST | PUT | DELETE | PATCH

datatype url = Root | Health | Accounts | Accounts_id int

text \<open>
  What a handler reads of the request: \<open>content_type\<close> is
  \<^verbatim>\<open>request.headers.get("Content-Type")\<close>, \<open>None\<close> when the header is missing; \<open>payload\<close> is
  the document that the text of the body denotes, \<open>None\<close> when the body is not a JSON
  text. Whether the framework hands that document to the handler depends on the content
  type: see \<open>get_json\<close>.
\<close>

record request =
  req_method :: http_method
  req_url :: url
  content_type :: "string option"
  payload :: "json option"

datatype content = Json json | Text string

record response =
  body :: content
  status_code :: nat
  headers :: "(string \<times> string) list"

text \<open>
  \<open>HTTPException c d\<close> is what \<^verbatim>\<open>abort(c, d)\<close> raises; \<open>d = None\<close> is \<^verbatim>\<open>abort(c)\<close>, where the
  handler passes no description and the response has the framework's fixed text for the
  code. \<open>Validation_error\<close> is the failure of \<^verbatim>\<open>deserialize\<close>.
\<close>

datatype error = HTTPException nat "string option" | Validation_error

text \<open>
  Modelled from the spec: the constants of \<^verbatim>\<open>service.common.status\<close> are not under src/; the
  numbers are those of the spec's table of the HTTP surface.
\<close>

definition HTTP_200_OK :: nat where "HTTP_200_OK = 200"
definition HTTP_201_CREATED :: nat where "HTTP_201_CREATED = 201"
definition HTTP_204_NO_CONTENT :: nat where "HTTP_204_NO_CONTENT = 204"
definition HTTP_400_BAD_REQUEST :: nat where "HTTP_400_BAD_REQUEST = 400"
definition HTTP_404_NOT_FOUND :: nat where "HTTP_404_NOT_FOUND = 404"
definition HTTP_405_METHOD_NOT_ALLOWED :: nat where "HTTP_405_METHOD_NOT_ALLOWED = 405"
definition HTTP_415_UNSUPPORTED_MEDIA_TYPE :: nat where "HTTP_415_UNSUPPORTED_MEDIA_TYPE = 415"

text \<open>
  Modelled from the spec: the error handlers of the service are not under src/. The spec's
  error taxonomy: "Validation error (malformed/incomplete create or update body)
  \<open>\<rightarrow>\<close> 400"; an abort is answered with its own code.
\<close>

fun error_status :: "error \<Rightarrow> nat" where
  "error_status (HTTPException c d) = c"
| "error_status Validation_error = HTTP_400_BAD_REQUEST"

definition status_of :: "error + response \<Rightarrow> nat" where
  "status_of r = (case r of Inl e \<Rightarrow> error_status e | Inr resp \<Rightarrow> status_code resp)"

section \<open>The persistence accessor\<close>

text \<open>
  Modelled from the spec: \<^verbatim>\<open>Account()\<close>, the constructor of \<^verbatim>\<open>service/models.py\<close>, is not
  under src/. A new object has no id yet; \<^verbatim>\<open>date_joined\<close> "defaults to creation date"; the
  strings are unset, and \<open>deserialize\<close> writes every one of them before a handler reads it.
\<close>

definition Account :: "date \<Rightarrow> account" where
  "Account today =
     \<lparr>account_id = None, name = [], email = [], address = [], phone_number = [],
      date_joined = today\<rparr>"

text \<open>
  Modelled from the spec: \<^verbatim>\<open>Account.serialize\<close> is not under src/. "Serialization contract:
  object \<open>\<leftrightarrow>\<close> JSON, field names exactly as listed in \<section>3; \<^verbatim>\<open>date_joined\<close> serializes as
  an ISO-format date string."
\<close>

definition serialize :: "account \<Rightarrow> json" where
  "serialize a =
     JObj [(''id'', (case account_id a of None \<Rightarrow> JNull | Some i \<Rightarrow> JNum i)),
           (''name'', JStr (name a)),
           (''email'', JStr (email a)),
           (''address'', JStr (address a)),
           (''phone_number'', JStr (phone_number a)),
           (''date_joined'', JStr (isoformat (date_joined a)))]"

text \<open>
  Modelled from the spec: \<^verbatim>\<open>Account.deserialize\<close> is not under src/. The spec: \<^verbatim>\<open>name\<close>,
  \<^verbatim>\<open>email\<close>, \<^verbatim>\<open>address\<close> "string, required"; \<^verbatim>\<open>phone_number\<close> "string, required (numeric
  values accepted on input are coerced to string representation)"; \<^verbatim>\<open>date_joined\<close> "date,
  defaults to creation date if absent on input"; it "fails with a bad-request error if
  required fields are missing or malformed". The id is not taken from the body: it is
  "assigned by the persistence layer on creation; immutable thereafter".
\<close>

definition field_str :: "(string \<times> json) list \<Rightarrow> string \<Rightarrow> string option" where
  "field_str kvs k = (case map_of kvs k of Some (JStr s) \<Rightarrow> Some s | _ \<Rightarrow> None)"

definition field_phone :: "(string \<times> json) list \<Rightarrow> string option" where
  "field_phone kvs =
     (case map_of kvs ''phone_number'' of
        Some (JStr s) \<Rightarrow> Some s
      | Some (JNum n) \<Rightarrow> Some (str_int n)
      | _ \<Rightarrow> None)"

definition field_date :: "date \<Rightarrow> (string \<times> json) list \<Rightarrow> date option" where
  "field_date today kvs =
     (case map_of kvs ''date_joined'' of
        None \<Rightarrow> Some today
      | Some (JStr s) \<Rightarrow> fromisoformat s
      | Some _ \<Rightarrow> None)"

definition deserialize :: "date \<Rightarrow> account \<Rightarrow> json \<Rightarrow> error + account" where
  "deserialize today self data =
     (case data of
        JObj kvs \<Rightarrow>
          (case field_str kvs ''name'' of
             None \<Rightarrow> Inl Validation_error
           | Some n \<Rightarrow>
               (case field_str kvs ''email'' of
                  None \<Rightarrow> Inl Validation_error
                | Some e \<Rightarrow>
                    (case field_str kvs ''address'' of
                       None \<Rightarrow> Inl Validation_error
                     | Some a \<Rightarrow>
                         (case field_phone kvs of
                            None \<Rightarrow> Inl Validation_error
                          | Some p \<Rightarrow>
                              (case field_date today kvs of
                                 None \<Rightarrow> Inl Validation_error
                               | Some d \<Rightarrow>
                                   Inr (self\<lparr>name := n, email := e, address := a,
                                              phone_number := p, date_joined := d\<rparr>))))))
      | _ \<Rightarrow> Inl Validation_error)"

text \<open>
  Modelled from the spec: \<^verbatim>\<open>Account.all\<close>, \<^verbatim>\<open>Account.find\<close>, \<^verbatim>\<open>create\<close>, \<^verbatim>\<open>update\<close> and
  \<^verbatim>\<open>delete\<close> are not under src/. The spec: list "returns every persisted Account"; read
  "looks up by id"; create "assigns a new id, persists the record", the id "newly assigned
  and positive" and unique among the persisted accounts; update mutates "in place (all
  mutable fields replaceable; id fixed)"; delete "removes it". The new id is one more than
  the largest id of the table, and 1 on a table without ids.
\<close>

definition Account_all :: "db \<Rightarrow> account list" where
  "Account_all d = d"

definition Account_find :: "db \<Rightarrow> int \<Rightarrow> account option" where
  "Account_find d i = find (\<lambda>r. account_id r = Some i) d"

definition new_id :: "db \<Rightarrow> int" where
  "new_id d = 1 + fold (\<lambda>r m. case account_id r of None \<Rightarrow> m | Some i \<Rightarrow> max i m) d 0"

definition create :: "account \<Rightarrow> db \<Rightarrow> account \<times> db" where
  "create a d = (let a' = a\<lparr>account_id := Some (new_id d)\<rparr> in (a', d @ [a']))"

definition update :: "account \<Rightarrow> db \<Rightarrow> db" where
  "update a d = map (\<lambda>r. if account_id r = account_id a then a else r) d"

definition delete :: "account \<Rightarrow> db \<Rightarrow> db" where
  "delete a d = filter (\<lambda>r. account_id r \<noteq> account_id a) d"

section \<open>The handlers of routes.py\<close>

text \<open>
  \<^verbatim>\<open>request.mimetype\<close> and \<^verbatim>\<open>request.is_json\<close> of the framework: the mimetype is the content
  type without its parameters, stripped and in lower case, and the empty string when the
  header is missing; it is JSON when it is \<^verbatim>\<open>application/json\<close> or starts with
  \<^verbatim>\<open>application/\<close> and ends with \<^verbatim>\<open>+json\<close>.
\<close>

definition to_lower :: "char \<Rightarrow> char" where
  "to_lower c =
     (case map_of (zip ''ABCDEFGHIJKLMNOPQRSTUVWXYZ'' ''abcdefghijklmnopqrstuvwxyz'') c of
        None \<Rightarrow> c
      | Some l \<Rightarrow> l)"

definition is_space :: "char \<Rightarrow> bool" where
  "is_space c = (c \<in> set [CHR 0x20, CHR 0x09, CHR 0x0A, CHR 0x0B, CHR 0x0C, CHR 0x0D])"

definition strip :: "string \<Rightarrow> string" where
  "strip s = rev (dropWhile is_space (rev (dropWhile is_space s)))"

definition mimetype :: "request \<Rightarrow> string" where
  "mimetype req =
     (case content_type req of
        None \<Rightarrow> []
      | Some ct \<Rightarrow> map to_lower (strip (takeWhile (\<lambda>c. c \<noteq> CHR '';'') ct)))"

definition is_json :: "request \<Rightarrow> bool" where
  "is_json req =
     (let mt = mimetype req
      in mt = ''application/json'' \<or>
         (take 12 mt = ''application/'' \<and> 5 \<le> length mt \<and>
          drop (length mt - 5) mt = ''+json''))"

text \<open>
  \<^verbatim>\<open>request.get_json()\<close>, called with \<^verbatim>\<open>force=False\<close>: the framework parses the body only
  when the mimetype of the request is JSON, and then yields its document; a request of
  another mimetype, and a body that is no JSON text, end in the framework's error and no
  document reaches the handler. The code of that error is the framework's (400 here; a
  later version of the framework answers 415 for the mimetype), and no statement below
  depends on it.
\<close>

definition get_json :: "request \<Rightarrow> error + json" where
  "get_json req =
     (if \<not> is_json req then Inl (HTTPException HTTP_400_BAD_REQUEST None)
      else case payload req of
             None \<Rightarrow> Inl (HTTPException HTTP_400_BAD_REQUEST None)
           | Some j \<Rightarrow> Inr j)"

definition health :: "error + response" where
  "health =
     Inr \<lparr>body = Json (JObj [(''status'', JStr ''OK'')]), status_code = HTTP_200_OK, headers = []\<rparr>"

definition index :: "error + response" where
  "index =
     Inr \<lparr>body = Json (JObj [(''name'', JStr ''Account REST API Service''),
                               (''version'', JStr ''1.0'')]),
          status_code = HTTP_200_OK, headers = []\<rparr>"

text \<open>
  \<^verbatim>\<open>check_content_type\<close>: Python's \<^verbatim>\<open>content_type and content_type == media_type\<close> is false
  for a missing header (\<^verbatim>\<open>None\<close>) and for the empty string.
\<close>

definition check_content_type :: "request \<Rightarrow> string \<Rightarrow> error + unit" where
  "check_content_type req media_type =
     (case content_type req of
        None \<Rightarrow>
          Inl (HTTPException HTTP_415_UNSUPPORTED_MEDIA_TYPE
                 (Some (''Content-Type must be '' @ media_type)))
      | Some ct \<Rightarrow>
          if ct \<noteq> [] \<and> ct = media_type then Inr ()
          else Inl (HTTPException HTTP_415_UNSUPPORTED_MEDIA_TYPE
                      (Some (''Content-Type must be '' @ media_type))))"

definition create_accounts :: "date \<Rightarrow> request \<Rightarrow> db \<Rightarrow> (error + response) \<times> db" where
  "create_accounts today req d =
     (case check_content_type req ''application/json'' of
        Inl e \<Rightarrow> (Inl e, d)
      | Inr _ \<Rightarrow>
          (let account = Account today in
           case get_json req of
             Inl e \<Rightarrow> (Inl e, d)
           | Inr data \<Rightarrow>
               (case deserialize today account data of
                  Inl e \<Rightarrow> (Inl e, d)
                | Inr account \<Rightarrow>
                    (let (account, d') = create account d;
                         message = serialize account;
                         location_url = ''/''
                     in (Inr \<lparr>body = Json message, status_code = HTTP_201_CREATED,
                               headers = [(''Location'', location_url)]\<rparr>, d')))))"

definition list_accounts :: "db \<Rightarrow> error + response" where
  "list_accounts d =
     (let all_accounts = Account_all d;
          all_accounts = map serialize all_accounts
      in Inr \<lparr>body = Json (JArr all_accounts), status_code = HTTP_200_OK, headers = []\<rparr>)"

definition read_account :: "db \<Rightarrow> int \<Rightarrow> error + response" where
  "read_account d i =
     (let search_result = Account_find d i;
          was_found = (search_result \<noteq> None);
          status_code = (if was_found then HTTP_200_OK else HTTP_404_NOT_FOUND);
          response_body = (case search_result of Some a \<Rightarrow> serialize a | None \<Rightarrow> JObj [])
      in if \<not> was_found
         then Inl (HTTPException status_code
                     (Some (''Account with id '' @ str_int i @ '' could not be found :('')))
         else Inr \<lparr>body = Json response_body, status_code = status_code, headers = []\<rparr>)"

definition update_accounts :: "date \<Rightarrow> request \<Rightarrow> db \<Rightarrow> int \<Rightarrow> (error + response) \<times> db" where
  "update_accounts today req d i =
     (let search_result = Account_find d i;
          was_found = (search_result \<noteq> None);
          status_code = (if was_found then HTTP_200_OK else HTTP_404_NOT_FOUND)
      in case search_result of
           Some a \<Rightarrow>
             (case get_json req of
                Inl e \<Rightarrow> (Inl e, d)
              | Inr data \<Rightarrow>
                  (case deserialize today a data of
                     Inl e \<Rightarrow> (Inl e, d)
                   | Inr a' \<Rightarrow>
                       (Inr \<lparr>body = Json (serialize a'), status_code = status_code,
                             headers = []\<rparr>, update a' d)))
         | None \<Rightarrow> (Inl (HTTPException status_code None), d))"

definition delete_account :: "db \<Rightarrow> int \<Rightarrow> (error + response) \<times> db" where
  "delete_account d i =
     (let search_result = Account_find d i;
          d' = (case search_result of Some a \<Rightarrow> delete a d | None \<Rightarrow> d)
      in (Inr \<lparr>body = Text [], status_code = HTTP_204_NO_CONTENT, headers = []\<rparr>, d'))"

text \<open>
  The table of the \<^verbatim>\<open>@app.route\<close> decorators; a method that a path does not list is the
  framework's method-not-allowed error. The handlers that only read return no table, so
  the table after them is the table before.
\<close>

definition dispatch :: "date \<Rightarrow> request \<Rightarrow> db \<Rightarrow> (error + response) \<times> db" where
  "dispatch today req d =
     (case (req_url req, req_method req) of
        (Health, GET) \<Rightarrow> (health, d)
      | (Root, GET) \<Rightarrow> (index, d)
      | (Accounts, POST) \<Rightarrow> create_accounts today req d
      | (Accounts, GET) \<Rightarrow> (list_accounts d, d)
      | (Accounts_id i, GET) \<Rightarrow> (read_account d i, d)
      | (Accounts_id i, PUT) \<Rightarrow> update_accounts today req d i
      | (Accounts_id i, DELETE) \<Rightarrow> delete_account d i
      | _ \<Rightarrow> (Inl (HTTPException HTTP_405_METHOD_NOT_ALLOWED None), d))"

text \<open>
  \<^verbatim>\<open>_create_accounts\<close> of \<^verbatim>\<open>tests/test_routes.py\<close>, the "factory method to create accounts
  in bulk": one \<^verbatim>\<open>self.client.post(BASE_URL, json=...)\<close> after the other, each on the table
  the one before left. The test client's \<^verbatim>\<open>json=\<close> sends the document with the content type
  \<^verbatim>\<open>application/json\<close>; the helper asserts that each answer is 201, and \<open>None\<close> is the
  failure of that assertion.
\<close>

fun create_accounts_bulk :: "date \<Rightarrow> json list \<Rightarrow> db \<Rightarrow> db option" where
  "create_accounts_bulk today [] d = Some d"
| "create_accounts_bulk today (j # js) d =
     (let (response, d') =
            dispatch today
              \<lparr>req_method = POST, req_url = Accounts,
               content_type = Some ''application/json'', payload = Some j\<rparr> d
      in if status_of response = HTTP_201_CREATED then create_accounts_bulk today js d'
         else None)"

section \<open>Facts about the model\<close>

lemmas status_defs = HTTP_200_OK_def HTTP_201_CREATED_def HTTP_204_NO_CONTENT_def
  HTTP_400_BAD_REQUEST_def HTTP_404_NOT_FOUND_def HTTP_405_METHOD_NOT_ALLOWED_def
  HTTP_415_UNSUPPORTED_MEDIA_TYPE_def

lemma digit_val_Some: "digit_val c = Some x \<Longrightarrow> x < 10 \<and> digit_char x = c"
  by (auto simp: digit_val_def digit_char_def split: if_splits)

lemma number2_Some: "number2 a b = Some n \<Longrightarrow> pad2 n = [a, b] \<and> n < 100"
  by (auto simp: number2_def pad2_def split: option.splits dest!: digit_val_Some)

lemma fromisoformat_isoformat: "fromisoformat s = Some d \<Longrightarrow> isoformat d = s"
  by (induction s rule: fromisoformat.induct)
     (auto simp: isoformat_def split: option.splits if_splits dest!: number2_Some)

lemma fold_max_ge:
  "m \<le> fold (\<lambda>r m. case account_id r of None \<Rightarrow> m | Some i \<Rightarrow> max i m) d (m::int)"
proof (induction d arbitrary: m)
  case Nil
  show ?case by simp
next
  case (Cons r d)
  have "m \<le> (case account_id r of None \<Rightarrow> m | Some i \<Rightarrow> max i m)"
    by (simp split: option.split)
  also have "\<dots> \<le> fold (\<lambda>r m. case account_id r of None \<Rightarrow> m | Some i \<Rightarrow> max i m) d
                     (case account_id r of None \<Rightarrow> m | Some i \<Rightarrow> max i m)"
    by (rule Cons.IH)
  finally show ?case by simp
qed

lemma fold_max_mem:
  "r \<in> set d \<Longrightarrow> account_id r = Some i \<Longrightarrow>
   i \<le> fold (\<lambda>r m. case account_id r of None \<Rightarrow> m | Some i \<Rightarrow> max i m) d (m::int)"
proof (induction d arbitrary: m)
  case Nil
  then show ?case by simp
next
  case (Cons x d)
  show ?case
  proof (cases "r = x")
    case True
    have "i \<le> max i m" by simp
    also have "\<dots> \<le> fold (\<lambda>r m. case account_id r of None \<Rightarrow> m | Some i \<Rightarrow> max i m) d (max i m)"
      by (rule fold_max_ge)
    finally show ?thesis using True Cons.prems(2) by simp
  next
    case False
    with Cons.prems have "r \<in> set d" by simp
    from Cons.IH [OF this Cons.prems(2)] show ?thesis by simp
  qed
qed

lemma new_id_pos: "0 < new_id d"
  using fold_max_ge [of 0 d] by (simp add: new_id_def)

lemma new_id_gt: "r \<in> set d \<Longrightarrow> account_id r = Some i \<Longrightarrow> i < new_id d"
  using fold_max_mem [of r d i 0] by (simp add: new_id_def)

lemma Account_find_None_iff: "Account_find d i = None \<longleftrightarrow> (\<forall>r\<in>set d. account_id r \<noteq> Some i)"
  by (auto simp: Account_find_def find_None_iff)

lemma Account_find_Some: "Account_find d i = Some a \<Longrightarrow> account_id a = Some i \<and> a \<in> set d"
  by (auto simp: Account_find_def find_Some_iff)

lemma new_id_fresh: "Account_find d (new_id d) = None"
  using new_id_gt [of _ d "new_id d"] by (auto simp: Account_find_None_iff)

lemma find_snoc:
  "find P (xs @ [x]) = (case find P xs of None \<Rightarrow> (if P x then Some x else None) | Some y \<Rightarrow> Some y)"
  by (induction xs) auto

lemma Account_find_create:
  "Account_find (d @ [a\<lparr>account_id := Some (new_id d)\<rparr>]) (new_id d) =
   Some (a\<lparr>account_id := Some (new_id d)\<rparr>)"
  using new_id_fresh [of d] by (simp add: Account_find_def find_snoc)

lemma Account_find_update:
  "Account_find d i = Some a \<Longrightarrow> account_id a' = Some i \<Longrightarrow> Account_find (update a' d) i = Some a'"
  by (induction d) (auto simp: Account_find_def update_def split: if_splits)

lemma Account_find_delete:
  "account_id a = Some i \<Longrightarrow> Account_find (delete a d) i = None"
  by (simp add: Account_find_None_iff delete_def)

lemma deserialize_fields:
  "field_str kvs ''name'' = Some n \<Longrightarrow> field_str kvs ''email'' = Some e \<Longrightarrow>
   field_str kvs ''address'' = Some ad \<Longrightarrow> field_phone kvs = Some p \<Longrightarrow>
   field_date today kvs = Some dj \<Longrightarrow>
   deserialize today self (JObj kvs) =
     Inr (self\<lparr>name := n, email := e, address := ad, phone_number := p, date_joined := dj\<rparr>)"
  by (simp add: deserialize_def)

lemma deserialize_missing:
  "k \<in> {''name'', ''email'', ''address'', ''phone_number''} \<Longrightarrow> map_of kvs k = None \<Longrightarrow>
   deserialize today self (JObj kvs) = Inl Validation_error"
  by (auto simp: deserialize_def field_str_def field_phone_def split: option.splits)

lemma check_content_type_iff:
  "(check_content_type req ''application/json'' = Inr ()) = (content_type req = Some ''application/json'')"
  by (auto simp: check_content_type_def split: option.splits)

lemma check_content_type_fail:
  "content_type req \<noteq> Some ''application/json'' \<Longrightarrow>
   check_content_type req ''application/json'' =
     Inl (HTTPException 415 (Some ''Content-Type must be application/json''))"
  by (auto simp: check_content_type_def status_defs split: option.splits)

lemma is_json_application_json: "content_type req = Some ''application/json'' \<Longrightarrow> is_json req"
  by (simp add: is_json_def mimetype_def strip_def is_space_def to_lower_def)

lemma is_json_update: "is_json (req\<lparr>req_method := m, req_url := u\<rparr>) = is_json req"
  by (simp add: is_json_def mimetype_def)

lemma get_json_application_json:
  "content_type req = Some ''application/json'' \<Longrightarrow>
   get_json req =
     (case payload req of
        None \<Rightarrow> Inl (HTTPException HTTP_400_BAD_REQUEST None)
      | Some j \<Rightarrow> Inr j)"
  by (simp add: get_json_def is_json_application_json)

lemma create_accounts_ok:
  "content_type req = Some ''application/json'' \<Longrightarrow> payload req = Some data \<Longrightarrow>
   deserialize today (Account today) data = Inr a \<Longrightarrow>
   create_accounts today req d =
     (Inr \<lparr>body = Json (serialize (a\<lparr>account_id := Some (new_id d)\<rparr>)), status_code = 201,
           headers = [(''Location'', ''/'')]\<rparr>,
      d @ [a\<lparr>account_id := Some (new_id d)\<rparr>])"
  by (simp add: create_accounts_def check_content_type_def get_json_application_json create_def
      status_defs Let_def)

lemma create_accounts_error:
  "create_accounts today req d = (Inl e, d') \<Longrightarrow> d' = d"
  by (auto simp: create_accounts_def create_def Let_def split: sum.splits)

lemma create_accounts_status:
  "create_accounts today req d = (Inr r, d') \<Longrightarrow> status_code r = 201"
  by (auto simp: create_accounts_def create_def Let_def status_defs split: sum.splits)

lemma dispatch_post:
  "dispatch today (req\<lparr>req_method := POST, req_url := Accounts\<rparr>) d =
   create_accounts today (req\<lparr>req_method := POST, req_url := Accounts\<rparr>) d"
  by (simp add: dispatch_def)

lemma create_accounts_415:
  "content_type req \<noteq> Some ''application/json'' \<Longrightarrow>
   create_accounts today req d =
     (Inl (HTTPException 415 (Some ''Content-Type must be application/json'')), d)"
  by (simp add: create_accounts_def check_content_type_fail)

lemma field_str_map_of: "field_str kvs k = Some s \<Longrightarrow> map_of kvs k = Some (JStr s)"
  by (auto simp: field_str_def split: option.splits json.splits)

lemma field_phone_map_of:
  "field_phone kvs = Some p \<Longrightarrow>
   map_of kvs ''phone_number'' = Some (JStr p) \<or>
   (\<exists>k. map_of kvs ''phone_number'' = Some (JNum k) \<and> p = str_int k)"
  by (auto simp: field_phone_def split: option.splits json.splits)

lemma field_date_map_of:
  "field_date today kvs = Some dj \<Longrightarrow>
   map_of kvs ''date_joined'' = Some (JStr (isoformat dj)) \<or>
   (map_of kvs ''date_joined'' = None \<and> dj = today)"
  by (auto simp: field_date_def split: option.splits json.splits dest: fromisoformat_isoformat)

lemma read_account_found:
  "Account_find d i = Some a \<Longrightarrow>
   read_account d i = Inr \<lparr>body = Json (serialize a), status_code = 200, headers = []\<rparr>"
  by (simp add: read_account_def status_defs)

lemma Account_find_update_other:
  "j \<noteq> i \<Longrightarrow> account_id a' = Some i \<Longrightarrow> Account_find (update a' d) j = Account_find d j"
  by (induction d) (auto simp: Account_find_def update_def)

lemma create_accounts_length:
  "create_accounts today req d = (r, d') \<Longrightarrow> status_of r = 201 \<Longrightarrow> length d' = Suc (length d)"
  by (auto simp: create_accounts_def create_def Let_def status_of_def status_defs
        check_content_type_def get_json_def deserialize_def
      split: sum.splits option.splits if_splits json.splits)

lemma create_accounts_bulk_length:
  "create_accounts_bulk today js d = Some d' \<Longrightarrow> length d' = length d + length js"
proof (induction js arbitrary: d)
  case Nil
  then show ?case by simp
next
  case (Cons j js)
  let ?req = "\<lparr>req_method = POST, req_url = Accounts,
                content_type = Some ''application/json'', payload = Some j\<rparr>"
  obtain r d1 where step: "create_accounts today ?req d = (r, d1)"
    by (cases "create_accounts today ?req d") auto
  with Cons.prems have ok: "status_of r = 201" and rest: "create_accounts_bulk today js d1 = Some d'"
    by (auto simp: dispatch_def status_defs split: if_splits)
  from create_accounts_length [OF step ok] Cons.IH [OF rest] show ?case by simp
qed

lemma create_accounts_bulk_succeeds:
  "\<forall>j\<in>set js. \<exists>a. deserialize today (Account today) j = Inr a \<Longrightarrow>
   create_accounts_bulk today js d \<noteq> None"
proof (induction js arbitrary: d)
  case Nil
  show ?case by simp
next
  case (Cons j js)
  then obtain a where a: "deserialize today (Account today) j = Inr a" by auto
  let ?req = "\<lparr>req_method = POST, req_url = Accounts,
                content_type = Some ''application/json'', payload = Some j\<rparr>"
  have "create_accounts today ?req d =
     (Inr \<lparr>body = Json (serialize (a\<lparr>account_id := Some (new_id d)\<rparr>)), status_code = 201,
           headers = [(''Location'', ''/'')]\<rparr>,
      d @ [a\<lparr>account_id := Some (new_id d)\<rparr>])"
    by (rule create_accounts_ok [OF _ _ a]) simp_all
  moreover have "create_accounts_bulk today js (d @ [a\<lparr>account_id := Some (new_id d)\<rparr>]) \<noteq> None"
    using Cons.prems by (intro Cons.IH) simp
  ultimately show ?case by (simp add: dispatch_def status_of_def status_defs)
qed

section \<open>The claims\<close>

text \<open>
  Claim C1, as the code has it. For an id that the table does not hold, \<^verbatim>\<open>GET /accounts/{id}\<close>
  aborts with 404 and a description that names the id; \<^verbatim>\<open>PUT /accounts/{id}\<close> aborts with
  404 too, but \<^verbatim>\<open>update_accounts\<close> calls \<^verbatim>\<open>abort(status_code)\<close> with no description, so its
  answer carries no text of the handler's and cannot name the id.
\<close>

theorem not_found_messages:
  "Account_find d i = None \<Longrightarrow>
   dispatch today (req\<lparr>req_method := GET, req_url := Accounts_id i\<rparr>) d =
     (Inl (HTTPException 404
             (Some (''Account with id '' @ str_int i @ '' could not be found :(''))), d) \<and>
   dispatch today (req\<lparr>req_method := PUT, req_url := Accounts_id i\<rparr>) d =
     (Inl (HTTPException 404 None), d)"
  by (simp add: dispatch_def read_account_def update_accounts_def status_defs)

text \<open>
  Claim C1 at the request of \<^verbatim>\<open>test_update_account_not_existing\<close>: id 42 on the empty table.
\<close>

theorem not_found_messages_witness:
  "dispatch \<lparr>year = 2022, month = 1, day = 1\<rparr>
     \<lparr>req_method = GET, req_url = Accounts_id 42, content_type = Some ''application/json'',
      payload = None\<rparr> [] =
     (Inl (HTTPException 404 (Some ''Account with id 42 could not be found :('')), []) \<and>
   dispatch \<lparr>year = 2022, month = 1, day = 1\<rparr>
     \<lparr>req_method = PUT, req_url = Accounts_id 42, content_type = Some ''application/json'',
      payload = Some (JObj [])\<rparr> [] =
     (Inl (HTTPException 404 None), [])"
  using not_found_messages [of "[]" 42 "\<lparr>year = 2022, month = 1, day = 1\<rparr>"
      "\<lparr>req_method = GET, req_url = Accounts_id 42, content_type = Some ''application/json'',
        payload = None\<rparr>"]
    not_found_messages [of "[]" 42 "\<lparr>year = 2022, month = 1, day = 1\<rparr>"
      "\<lparr>req_method = PUT, req_url = Accounts_id 42, content_type = Some ''application/json'',
        payload = Some (JObj [])\<rparr>"]
  by (simp add: Account_find_def str_int_def str_nat.simps digit_char_def)

text \<open>
  Claim C2, as the code has it. For a request with the content type \<^verbatim>\<open>application/json\<close> and
  a document that \<^verbatim>\<open>deserialize\<close> accepts, \<^verbatim>\<open>POST /accounts\<close> gives the account an id that is
  positive and that no account of the table has, appends it to the table, and answers 201
  with the serialized account. The \<^verbatim>\<open>Location\<close> header is the constant \<^verbatim>\<open>"/"\<close>, the same for
  every account created: it does not refer to the account.
\<close>

theorem create_accounts_location:
  "content_type req = Some ''application/json'' \<Longrightarrow> payload req = Some data \<Longrightarrow>
   deserialize today (Account today) data = Inr a \<Longrightarrow>
   dispatch today (req\<lparr>req_method := POST, req_url := Accounts\<rparr>) d =
     (Inr \<lparr>body = Json (serialize (a\<lparr>account_id := Some (new_id d)\<rparr>)), status_code = 201,
           headers = [(''Location'', ''/'')]\<rparr>,
      d @ [a\<lparr>account_id := Some (new_id d)\<rparr>]) \<and>
   0 < new_id d \<and> Account_find d (new_id d) = None"
  by (simp add: dispatch_post create_accounts_ok new_id_pos new_id_fresh)

text \<open>
  Claim C2 at the account of the spec's example, created on the empty table (id 1) and on
  a table that holds the account with id 1 (id 2): both answers have the header
  \<^verbatim>\<open>Location: /\<close>.
\<close>

theorem create_accounts_location_witness:
  "dispatch \<lparr>year = 2022, month = 1, day = 1\<rparr>
     \<lparr>req_method = POST, req_url = Accounts, content_type = Some ''application/json'',
      payload = Some (JObj [(''name'', JStr ''Rofrano''),
        (''email'', JStr ''rofrano@example.com''), (''address'', JStr ''123 Main St''),
        (''phone_number'', JStr ''555-1234''), (''date_joined'', JStr ''2022-01-01'')])\<rparr> [] =
     (Inr \<lparr>body = Json (JObj [(''id'', JNum 1), (''name'', JStr ''Rofrano''),
              (''email'', JStr ''rofrano@example.com''), (''address'', JStr ''123 Main St''),
              (''phone_number'', JStr ''555-1234''), (''date_joined'', JStr ''2022-01-01'')]),
           status_code = 201, headers = [(''Location'', ''/'')]\<rparr>,
      [\<lparr>account_id = Some 1, name = ''Rofrano'', email = ''rofrano@example.com'',
        address = ''123 Main St'', phone_number = ''555-1234'',
        date_joined = \<lparr>year = 2022, month = 1, day = 1\<rparr>\<rparr>]) \<and>
   fst (dispatch \<lparr>year = 2022, month = 1, day = 1\<rparr>
     \<lparr>req_method = POST, req_url = Accounts, content_type = Some ''application/json'',
      payload = Some (JObj [(''name'', JStr ''Rofrano''),
        (''email'', JStr ''rofrano@example.com''), (''address'', JStr ''123 Main St''),
        (''phone_number'', JStr ''555-1234''), (''date_joined'', JStr ''2022-01-01'')])\<rparr>
     [\<lparr>account_id = Some 1, name = ''Rofrano'', email = ''rofrano@example.com'',
       address = ''123 Main St'', phone_number = ''555-1234'',
       date_joined = \<lparr>year = 2022, month = 1, day = 1\<rparr>\<rparr>]) =
     Inr \<lparr>body = Json (JObj [(''id'', JNum 2), (''name'', JStr ''Rofrano''),
              (''email'', JStr ''rofrano@example.com''), (''address'', JStr ''123 Main St''),
              (''phone_number'', JStr ''555-1234''), (''date_joined'', JStr ''2022-01-01'')]),
           status_code = 201, headers = [(''Location'', ''/'')]\<rparr>"
  using create_accounts_location [where today = "\<lparr>year = 2022, month = 1, day = 1\<rparr>"
      and d = "[]"
      and req = "\<lparr>req_method = POST, req_url = Accounts,
        content_type = Some ''application/json'',
        payload = Some (JObj [(''name'', JStr ''Rofrano''),
          (''email'', JStr ''rofrano@example.com''), (''address'', JStr ''123 Main St''),
          (''phone_number'', JStr ''555-1234''), (''date_joined'', JStr ''2022-01-01'')])\<rparr>"
      and data = "JObj [(''name'', JStr ''Rofrano''),
          (''email'', JStr ''rofrano@example.com''), (''address'', JStr ''123 Main St''),
          (''phone_number'', JStr ''555-1234''), (''date_joined'', JStr ''2022-01-01'')]"
      and a = "\<lparr>account_id = None, name = ''Rofrano'', email = ''rofrano@example.com'',
        address = ''123 Main St'', phone_number = ''555-1234'',
        date_joined = \<lparr>year = 2022, month = 1, day = 1\<rparr>\<rparr>"]
    create_accounts_location [where today = "\<lparr>year = 2022, month = 1, day = 1\<rparr>"
      and d = "[\<lparr>account_id = Some 1, name = ''Rofrano'', email = ''rofrano@example.com'',
        address = ''123 Main St'', phone_number = ''555-1234'',
        date_joined = \<lparr>year = 2022, month = 1, day = 1\<rparr>\<rparr>]"
      and req = "\<lparr>req_method = POST, req_url = Accounts,
        content_type = Some ''application/json'',
        payload = Some (JObj [(''name'', JStr ''Rofrano''),
          (''email'', JStr ''rofrano@example.com''), (''address'', JStr ''123 Main St''),
          (''phone_number'', JStr ''555-1234''), (''date_joined'', JStr ''2022-01-01'')])\<rparr>"
      and data = "JObj [(''name'', JStr ''Rofrano''),
          (''email'', JStr ''rofrano@example.com''), (''address'', JStr ''123 Main St''),
          (''phone_number'', JStr ''555-1234''), (''date_joined'', JStr ''2022-01-01'')]"
      and a = "\<lparr>account_id = None, name = ''Rofrano'', email = ''rofrano@example.com'',
        address = ''123 Main St'', phone_number = ''555-1234'',
        date_joined = \<lparr>year = 2022, month = 1, day = 1\<rparr>\<rparr>"]
  by (simp add: deserialize_def field_str_def field_phone_def field_date_def Account_def
      number2_def digit_val_def valid_date_def days_in_month_def
      serialize_def isoformat_def pad2_def digit_char_def new_id_def)

text \<open>
  Claim C3. \<^verbatim>\<open>POST /accounts\<close> with a content type other than \<^verbatim>\<open>application/json\<close> answers
  415 whatever the body is (a valid document, an invalid one, or no JSON text at all);
  with that content type and a JSON object that lacks one of the required fields
  \<^verbatim>\<open>name\<close>, \<^verbatim>\<open>email\<close>, \<^verbatim>\<open>address\<close>, \<^verbatim>\<open>phone_number\<close>, it answers 400.
\<close>

theorem create_accounts_415_400:
  "(content_type req \<noteq> Some ''application/json'' \<longrightarrow>
      status_of (fst (dispatch today (req\<lparr>req_method := POST, req_url := Accounts\<rparr>) d)) = 415) \<and>
   (content_type req = Some ''application/json'' \<and> payload req = Some (JObj kvs) \<and>
    k \<in> {''name'', ''email'', ''address'', ''phone_number''} \<and> map_of kvs k = None \<longrightarrow>
      status_of (fst (dispatch today (req\<lparr>req_method := POST, req_url := Accounts\<rparr>) d)) = 400)"
proof (intro conjI impI)
  assume "content_type req \<noteq> Some ''application/json''"
  then show "status_of (fst (dispatch today (req\<lparr>req_method := POST, req_url := Accounts\<rparr>) d)) = 415"
    by (simp add: dispatch_post create_accounts_415 status_of_def)
next
  assume a: "content_type req = Some ''application/json'' \<and> payload req = Some (JObj kvs) \<and>
    k \<in> {''name'', ''email'', ''address'', ''phone_number''} \<and> map_of kvs k = None"
  then have "deserialize today (Account today) (JObj kvs) = Inl Validation_error"
    using deserialize_missing [of k kvs today "Account today"] by blast
  with a show "status_of (fst (dispatch today (req\<lparr>req_method := POST, req_url := Accounts\<rparr>) d)) = 400"
    by (simp add: dispatch_post create_accounts_def check_content_type_def
        get_json_application_json status_of_def status_defs)
qed

text \<open>
  Claim C3 at a valid account sent as \<^verbatim>\<open>test/html\<close> (415), and at the document
  \<^verbatim>\<open>{"name": "not enough data"}\<close> of \<^verbatim>\<open>test_bad_request\<close>, which lacks \<^verbatim>\<open>email\<close> (400).
\<close>

theorem create_accounts_415_400_witness:
  "status_of (fst (dispatch \<lparr>year = 2022, month = 1, day = 1\<rparr>
          \<lparr>req_method = POST, req_url = Accounts, content_type = Some ''test/html'',
           payload = Some (JObj [(''name'', JStr ''Rofrano''),
             (''email'', JStr ''rofrano@example.com''), (''address'', JStr ''123 Main St''),
             (''phone_number'', JStr ''555-1234''), (''date_joined'', JStr ''2022-01-01'')])\<rparr>
          [])) = 415 \<and>
   status_of (fst (dispatch \<lparr>year = 2022, month = 1, day = 1\<rparr>
          \<lparr>req_method = POST, req_url = Accounts, content_type = Some ''application/json'',
           payload = Some (JObj [(''name'', JStr ''not enough data'')])\<rparr> [])) = 400"
  using create_accounts_415_400 [of
      "\<lparr>req_method = POST, req_url = Accounts, content_type = Some ''test/html'',
        payload = Some (JObj [(''name'', JStr ''Rofrano''),
          (''email'', JStr ''rofrano@example.com''), (''address'', JStr ''123 Main St''),
          (''phone_number'', JStr ''555-1234''), (''date_joined'', JStr ''2022-01-01'')])\<rparr>"
      "\<lparr>year = 2022, month = 1, day = 1\<rparr>" "[]"]
    create_accounts_415_400 [of
      "\<lparr>req_method = POST, req_url = Accounts, content_type = Some ''application/json'',
        payload = Some (JObj [(''name'', JStr ''not enough data'')])\<rparr>"
      "\<lparr>year = 2022, month = 1, day = 1\<rparr>" "[]" "[(''name'', JStr ''not enough data'')]"
      "''email''"]
  by simp

text \<open>
  Claim C4. For an id that the table holds and a request whose mimetype is JSON, so that
  \<^verbatim>\<open>request.get_json()\<close> yields the body, with a document that \<^verbatim>\<open>deserialize\<close> accepts
  (strings \<open>n\<close>, \<open>e\<close>, \<open>ad\<close> for \<^verbatim>\<open>name\<close>, \<^verbatim>\<open>email\<close>, \<^verbatim>\<open>address\<close>; a phone number that reads as
  \<open>p\<close>; a date that reads as \<open>dj\<close>), \<^verbatim>\<open>PUT /accounts/{id}\<close> answers 200 with the record of the
  same id and exactly these field values, where a numeric \<^verbatim>\<open>phone_number\<close> comes back as its
  decimal text in a string; the table after the request holds the new record under the
  id (a read of the id answers it) and holds under every other id what it held before.
  For an id that the table does not hold, the answer is 404 and the table is unchanged.
\<close>

theorem update_accounts_overwrites:
  "(Account_find d i = Some a \<and> is_json req \<and> payload req = Some (JObj kvs) \<and>
    field_str kvs ''name'' = Some n \<and> field_str kvs ''email'' = Some e \<and>
    field_str kvs ''address'' = Some ad \<and> field_phone kvs = Some p \<and>
    field_date today kvs = Some dj \<longrightarrow>
      fst (dispatch today (req\<lparr>req_method := PUT, req_url := Accounts_id i\<rparr>) d) =
        Inr \<lparr>body = Json (JObj [(''id'', JNum i), (''name'', JStr n), (''email'', JStr e),
                 (''address'', JStr ad), (''phone_number'', JStr p),
                 (''date_joined'', JStr (isoformat dj))]),
              status_code = 200, headers = []\<rparr> \<and>
      fst (dispatch today (req'\<lparr>req_method := GET, req_url := Accounts_id i\<rparr>)
             (snd (dispatch today (req\<lparr>req_method := PUT, req_url := Accounts_id i\<rparr>) d))) =
        Inr \<lparr>body = Json (JObj [(''id'', JNum i), (''name'', JStr n), (''email'', JStr e),
                 (''address'', JStr ad), (''phone_number'', JStr p),
                 (''date_joined'', JStr (isoformat dj))]),
              status_code = 200, headers = []\<rparr> \<and>
      (\<forall>j. j \<noteq> i \<longrightarrow>
         Account_find
           (snd (dispatch today (req\<lparr>req_method := PUT, req_url := Accounts_id i\<rparr>) d)) j =
         Account_find d j) \<and>
      map_of kvs ''name'' = Some (JStr n) \<and>
      map_of kvs ''email'' = Some (JStr e) \<and>
      map_of kvs ''address'' = Some (JStr ad) \<and>
      (map_of kvs ''phone_number'' = Some (JStr p) \<or>
       (\<exists>k. map_of kvs ''phone_number'' = Some (JNum k) \<and> p = str_int k)) \<and>
      (map_of kvs ''date_joined'' = Some (JStr (isoformat dj)) \<or>
       (map_of kvs ''date_joined'' = None \<and> dj = today))) \<and>
   (map_of kvs ''phone_number'' = Some (JNum k) \<longrightarrow> field_phone kvs = Some (str_int k)) \<and>
   (Account_find d i = None \<longrightarrow>
      dispatch today (req\<lparr>req_method := PUT, req_url := Accounts_id i\<rparr>) d =
        (Inl (HTTPException 404 None), d))"
proof (intro conjI impI)
  assume "map_of kvs ''phone_number'' = Some (JNum k)"
  then show "field_phone kvs = Some (str_int k)"
    by (simp add: field_phone_def)
next
  assume "Account_find d i = None"
  then show "dispatch today (req\<lparr>req_method := PUT, req_url := Accounts_id i\<rparr>) d =
      (Inl (HTTPException 404 None), d)"
    by (simp add: dispatch_def update_accounts_def status_defs)
next
  assume h: "Account_find d i = Some a \<and> is_json req \<and> payload req = Some (JObj kvs) \<and>
    field_str kvs ''name'' = Some n \<and> field_str kvs ''email'' = Some e \<and>
    field_str kvs ''address'' = Some ad \<and> field_phone kvs = Some p \<and>
    field_date today kvs = Some dj"
  let ?a = "a\<lparr>name := n, email := e, address := ad, phone_number := p, date_joined := dj\<rparr>"
  let ?body = "JObj [(''id'', JNum i), (''name'', JStr n), (''email'', JStr e),
                 (''address'', JStr ad), (''phone_number'', JStr p),
                 (''date_joined'', JStr (isoformat dj))]"
  from h have found: "Account_find d i = Some a" by simp
  then have id_a: "account_id a = Some i" by (simp add: Account_find_Some)
  from h have des: "deserialize today a (JObj kvs) = Inr ?a"
    by (intro deserialize_fields) simp_all
  have ser: "serialize ?a = ?body"
    using id_a by (simp add: serialize_def)
  have put: "dispatch today (req\<lparr>req_method := PUT, req_url := Accounts_id i\<rparr>) d =
      (Inr \<lparr>body = Json ?body, status_code = 200, headers = []\<rparr>, update ?a d)"
    using h des
    by (simp add: dispatch_def update_accounts_def get_json_def is_json_update status_defs ser)
  have found': "Account_find (update ?a d) i = Some ?a"
    using found id_a by (intro Account_find_update) simp_all
  have get: "dispatch today (req'\<lparr>req_method := GET, req_url := Accounts_id i\<rparr>) (update ?a d) =
      (Inr \<lparr>body = Json ?body, status_code = 200, headers = []\<rparr>, update ?a d)"
    by (simp add: dispatch_def read_account_found [OF found'] ser)
  show "fst (dispatch today (req\<lparr>req_method := PUT, req_url := Accounts_id i\<rparr>) d) =
      Inr \<lparr>body = Json ?body, status_code = 200, headers = []\<rparr>"
    by (simp only: put fst_conv)
  show "fst (dispatch today (req'\<lparr>req_method := GET, req_url := Accounts_id i\<rparr>)
             (snd (dispatch today (req\<lparr>req_method := PUT, req_url := Accounts_id i\<rparr>) d))) =
      Inr \<lparr>body = Json ?body, status_code = 200, headers = []\<rparr>"
    by (simp only: put get fst_conv snd_conv)
  show "\<forall>j. j \<noteq> i \<longrightarrow>
         Account_find
           (snd (dispatch today (req\<lparr>req_method := PUT, req_url := Accounts_id i\<rparr>) d)) j =
         Account_find d j"
    using id_a by (simp only: put snd_conv) (simp add: Account_find_update_other)
  from h show "map_of kvs ''name'' = Some (JStr n)" by (simp add: field_str_map_of)
  from h show "map_of kvs ''email'' = Some (JStr e)" by (simp add: field_str_map_of)
  from h show "map_of kvs ''address'' = Some (JStr ad)" by (simp add: field_str_map_of)
  from h show "map_of kvs ''phone_number'' = Some (JStr p) \<or>
       (\<exists>k. map_of kvs ''phone_number'' = Some (JNum k) \<and> p = str_int k)"
    by (intro field_phone_map_of) simp
  from h show "map_of kvs ''date_joined'' = Some (JStr (isoformat dj)) \<or>
       (map_of kvs ''date_joined'' = None \<and> dj = today)"
    by (intro field_date_map_of) simp
qed

text \<open>
  Claim C4 at the request of \<^verbatim>\<open>test_update_account\<close>: on the table that holds the spec's
  example account under id 1, a PUT of the name \<^verbatim>\<open>Jeronimo\<close> and the numeric phone number
  42 answers 200 with \<^verbatim>\<open>"name": "Jeronimo"\<close> and \<^verbatim>\<open>"phone_number": "42"\<close>; the same PUT to
  id 42, which the table does not hold, answers 404.
\<close>

theorem update_accounts_overwrites_witness:
  "fst (dispatch \<lparr>year = 2022, month = 1, day = 1\<rparr>
     \<lparr>req_method = PUT, req_url = Accounts_id 1, content_type = Some ''application/json'',
      payload = Some (JObj [(''name'', JStr ''Jeronimo''),
        (''email'', JStr ''jeronimo@example.com''), (''address'', JStr ''1 Side St''),
        (''phone_number'', JNum 42), (''date_joined'', JStr ''2023-02-28'')])\<rparr>
     [\<lparr>account_id = Some 1, name = ''Rofrano'', email = ''rofrano@example.com'',
       address = ''123 Main St'', phone_number = ''555-1234'',
       date_joined = \<lparr>year = 2022, month = 1, day = 1\<rparr>\<rparr>]) =
     Inr \<lparr>body = Json (JObj [(''id'', JNum 1), (''name'', JStr ''Jeronimo''),
              (''email'', JStr ''jeronimo@example.com''), (''address'', JStr ''1 Side St''),
              (''phone_number'', JStr ''42''), (''date_joined'', JStr ''2023-02-28'')]),
           status_code = 200, headers = []\<rparr> \<and>
   dispatch \<lparr>year = 2022, month = 1, day = 1\<rparr>
     \<lparr>req_method = PUT, req_url = Accounts_id 42, content_type = Some ''application/json'',
      payload = Some (JObj [(''name'', JStr ''Jeronimo''),
        (''email'', JStr ''jeronimo@example.com''), (''address'', JStr ''1 Side St''),
        (''phone_number'', JNum 42), (''date_joined'', JStr ''2023-02-28'')])\<rparr>
     [\<lparr>account_id = Some 1, name = ''Rofrano'', email = ''rofrano@example.com'',
       address = ''123 Main St'', phone_number = ''555-1234'',
       date_joined = \<lparr>year = 2022, month = 1, day = 1\<rparr>\<rparr>] =
     (Inl (HTTPException 404 None),
      [\<lparr>account_id = Some 1, name = ''Rofrano'', email = ''rofrano@example.com'',
        address = ''123 Main St'', phone_number = ''555-1234'',
        date_joined = \<lparr>year = 2022, month = 1, day = 1\<rparr>\<rparr>])"
  using update_accounts_overwrites [where today = "\<lparr>year = 2022, month = 1, day = 1\<rparr>"
      and i = 1 and k = 42
      and d = "[\<lparr>account_id = Some 1, name = ''Rofrano'', email = ''rofrano@example.com'',
        address = ''123 Main St'', phone_number = ''555-1234'',
        date_joined = \<lparr>year = 2022, month = 1, day = 1\<rparr>\<rparr>]"
      and a = "\<lparr>account_id = Some 1, name = ''Rofrano'', email = ''rofrano@example.com'',
        address = ''123 Main St'', phone_number = ''555-1234'',
        date_joined = \<lparr>year = 2022, month = 1, day = 1\<rparr>\<rparr>"
      and n = "''Jeronimo''" and e = "''jeronimo@example.com''" and ad = "''1 Side St''"
      and p = "''42''" and dj = "\<lparr>year = 2023, month = 2, day = 28\<rparr>"
      and kvs = "[(''name'', JStr ''Jeronimo''), (''email'', JStr ''jeronimo@example.com''),
        (''address'', JStr ''1 Side St''), (''phone_number'', JNum 42),
        (''date_joined'', JStr ''2023-02-28'')]"
      and req = "\<lparr>req_method = PUT, req_url = Accounts_id 1,
        content_type = Some ''application/json'',
        payload = Some (JObj [(''name'', JStr ''Jeronimo''),
          (''email'', JStr ''jeronimo@example.com''), (''address'', JStr ''1 Side St''),
          (''phone_number'', JNum 42), (''date_joined'', JStr ''2023-02-28'')])\<rparr>"
      and req' = "\<lparr>req_method = GET, req_url = Accounts_id 1, content_type = None,
        payload = None\<rparr>"]
    update_accounts_overwrites [where today = "\<lparr>year = 2022, month = 1, day = 1\<rparr>"
      and i = 42 and k = 42
      and d = "[\<lparr>account_id = Some 1, name = ''Rofrano'', email = ''rofrano@example.com'',
        address = ''123 Main St'', phone_number = ''555-1234'',
        date_joined = \<lparr>year = 2022, month = 1, day = 1\<rparr>\<rparr>]"
      and kvs = "[(''name'', JStr ''Jeronimo''), (''email'', JStr ''jeronimo@example.com''),
        (''address'', JStr ''1 Side St''), (''phone_number'', JNum 42),
        (''date_joined'', JStr ''2023-02-28'')]"
      and req = "\<lparr>req_method = PUT, req_url = Accounts_id 42,
        content_type = Some ''application/json'',
        payload = Some (JObj [(''name'', JStr ''Jeronimo''),
          (''email'', JStr ''jeronimo@example.com''), (''address'', JStr ''1 Side St''),
          (''phone_number'', JNum 42), (''date_joined'', JStr ''2023-02-28'')])\<rparr>"]
  by (simp add: Account_find_def is_json_application_json field_str_def field_phone_def
      field_date_def number2_def digit_val_def valid_date_def days_in_month_def is_leap_def
      isoformat_def pad2_def digit_char_def str_int_def str_nat.simps)

text \<open>
  Claim C5. For every id and every table, \<^verbatim>\<open>DELETE /accounts/{id}\<close> answers 204 with an
  empty body, whether the table holds the id or not; a second delete of the same id
  answers 204 again and changes nothing more; and a delete of an id that the table does
  not hold leaves the table as it was.
\<close>

theorem delete_account_idempotent:
  "fst (dispatch today (req\<lparr>req_method := DELETE, req_url := Accounts_id i\<rparr>) d) =
     Inr \<lparr>body = Text [], status_code = 204, headers = []\<rparr> \<and>
   dispatch today (req\<lparr>req_method := DELETE, req_url := Accounts_id i\<rparr>)
       (snd (dispatch today (req\<lparr>req_method := DELETE, req_url := Accounts_id i\<rparr>) d)) =
     (Inr \<lparr>body = Text [], status_code = 204, headers = []\<rparr>,
      snd (dispatch today (req\<lparr>req_method := DELETE, req_url := Accounts_id i\<rparr>) d)) \<and>
   (Account_find d i = None \<longrightarrow>
      snd (dispatch today (req\<lparr>req_method := DELETE, req_url := Accounts_id i\<rparr>) d) = d)"
proof -
  have del: "dispatch today (req\<lparr>req_method := DELETE, req_url := Accounts_id i\<rparr>) t =
      delete_account t i" for t
    by (simp add: dispatch_def)
  have gone: "Account_find (snd (delete_account d i)) i = None"
  proof (cases "Account_find d i")
    case None
    then show ?thesis by (simp add: delete_account_def)
  next
    case (Some a)
    then have "account_id a = Some i" by (simp add: Account_find_Some)
    then show ?thesis using Some by (simp add: delete_account_def Account_find_delete)
  qed
  have absent: "Account_find t i = None \<Longrightarrow> delete_account t i =
      (Inr \<lparr>body = Text [], status_code = 204, headers = []\<rparr>, t)" for t
    by (simp add: delete_account_def status_defs)
  have first: "fst (delete_account d i) = Inr \<lparr>body = Text [], status_code = 204, headers = []\<rparr>"
    by (simp add: delete_account_def status_defs Let_def)
  show ?thesis
    using first absent [OF gone] absent [of d] by (simp add: del)
qed

text \<open>
  Claim C5 on a table of one account, with id 1: deleting the absent id 2 leaves the table,
  deleting id 1 empties it, and deleting id 1 again on the empty table answers 204 as well.
\<close>

theorem delete_account_idempotent_witness:
  "snd (dispatch \<lparr>year = 2022, month = 1, day = 1\<rparr>
          \<lparr>req_method = DELETE, req_url = Accounts_id 2, content_type = None, payload = None\<rparr>
          [\<lparr>account_id = Some 1, name = ''Rofrano'', email = ''rofrano@example.com'',
            address = ''123 Main St'', phone_number = ''555-1234'',
            date_joined = \<lparr>year = 2022, month = 1, day = 1\<rparr>\<rparr>]) =
     [\<lparr>account_id = Some 1, name = ''Rofrano'', email = ''rofrano@example.com'',
       address = ''123 Main St'', phone_number = ''555-1234'',
       date_joined = \<lparr>year = 2022, month = 1, day = 1\<rparr>\<rparr>] \<and>
   dispatch \<lparr>year = 2022, month = 1, day = 1\<rparr>
     \<lparr>req_method = DELETE, req_url = Accounts_id 1, content_type = None, payload = None\<rparr>
     [\<lparr>account_id = Some 1, name = ''Rofrano'', email = ''rofrano@example.com'',
       address = ''123 Main St'', phone_number = ''555-1234'',
       date_joined = \<lparr>year = 2022, month = 1, day = 1\<rparr>\<rparr>] =
     (Inr \<lparr>body = Text [], status_code = 204, headers = []\<rparr>, []) \<and>
   dispatch \<lparr>year = 2022, month = 1, day = 1\<rparr>
     \<lparr>req_method = DELETE, req_url = Accounts_id 1, content_type = None, payload = None\<rparr> [] =
     (Inr \<lparr>body = Text [], status_code = 204, headers = []\<rparr>, [])"
  using delete_account_idempotent [where today = "\<lparr>year = 2022, month = 1, day = 1\<rparr>"
      and req = "\<lparr>req_method = DELETE, req_url = Accounts_id 2, content_type = None, payload = None\<rparr>"
      and i = 2 and d = "[\<lparr>account_id = Some 1, name = ''Rofrano'', email = ''rofrano@example.com'',
         address = ''123 Main St'', phone_number = ''555-1234'',
         date_joined = \<lparr>year = 2022, month = 1, day = 1\<rparr>\<rparr>]"]
    delete_account_idempotent [where today = "\<lparr>year = 2022, month = 1, day = 1\<rparr>"
      and req = "\<lparr>req_method = DELETE, req_url = Accounts_id 1, content_type = None, payload = None\<rparr>"
      and i = 1 and d = "[\<lparr>account_id = Some 1, name = ''Rofrano'', email = ''rofrano@example.com'',
         address = ''123 Main St'', phone_number = ''555-1234'',
         date_joined = \<lparr>year = 2022, month = 1, day = 1\<rparr>\<rparr>]"]
  by (simp add: Account_find_def dispatch_def delete_account_def delete_def status_defs)

text \<open>
  Claim C6, as stated, fails: a numeric \<^verbatim>\<open>phone_number\<close> is a valid input and is read back
  as a string, and a document without \<^verbatim>\<open>date_joined\<close> is a valid input and is read back
  with one. Here the document \<^verbatim>\<open>{"name": "Rofrano", "email": "rofrano@example.com",
  "address": "123 Main St", "phone_number": 42}\<close> is created on the empty table on
  2022-01-01 (answer 201) and the account with id 1 is read: the record read has
  \<^verbatim>\<open>"phone_number": "42"\<close> and \<^verbatim>\<open>"date_joined": "2022-01-01"\<close>, which are not the input's
  \<^verbatim>\<open>phone_number\<close> (the number 42) and \<^verbatim>\<open>date_joined\<close> (none).
\<close>

theorem create_then_read_counterexample:
  "status_of (fst (dispatch \<lparr>year = 2022, month = 1, day = 1\<rparr>
     \<lparr>req_method = POST, req_url = Accounts, content_type = Some ''application/json'',
      payload = Some (JObj [(''name'', JStr ''Rofrano''),
        (''email'', JStr ''rofrano@example.com''), (''address'', JStr ''123 Main St''),
        (''phone_number'', JNum 42)])\<rparr> [])) = 201 \<and>
   fst (dispatch \<lparr>year = 2022, month = 1, day = 1\<rparr>
     \<lparr>req_method = GET, req_url = Accounts_id 1, content_type = None, payload = None\<rparr>
     (snd (dispatch \<lparr>year = 2022, month = 1, day = 1\<rparr>
       \<lparr>req_method = POST, req_url = Accounts, content_type = Some ''application/json'',
        payload = Some (JObj [(''name'', JStr ''Rofrano''),
          (''email'', JStr ''rofrano@example.com''), (''address'', JStr ''123 Main St''),
          (''phone_number'', JNum 42)])\<rparr> []))) =
     Inr \<lparr>body = Json (JObj [(''id'', JNum 1), (''name'', JStr ''Rofrano''),
              (''email'', JStr ''rofrano@example.com''), (''address'', JStr ''123 Main St''),
              (''phone_number'', JStr ''42''), (''date_joined'', JStr ''2022-01-01'')]),
           status_code = 200, headers = []\<rparr> \<and>
   map_of [(''id'', JNum 1), (''name'', JStr ''Rofrano''),
           (''email'', JStr ''rofrano@example.com''), (''address'', JStr ''123 Main St''),
           (''phone_number'', JStr ''42''), (''date_joined'', JStr ''2022-01-01'')]
       ''phone_number'' \<noteq>
     map_of [(''name'', JStr ''Rofrano''), (''email'', JStr ''rofrano@example.com''),
             (''address'', JStr ''123 Main St''), (''phone_number'', JNum 42)]
       ''phone_number'' \<and>
   map_of [(''id'', JNum 1), (''name'', JStr ''Rofrano''),
           (''email'', JStr ''rofrano@example.com''), (''address'', JStr ''123 Main St''),
           (''phone_number'', JStr ''42''), (''date_joined'', JStr ''2022-01-01'')]
       ''date_joined'' \<noteq>
     map_of [(''name'', JStr ''Rofrano''), (''email'', JStr ''rofrano@example.com''),
             (''address'', JStr ''123 Main St''), (''phone_number'', JNum 42)]
       ''date_joined''"
  by (simp add: dispatch_def create_accounts_def check_content_type_def
      get_json_application_json
      deserialize_def field_str_def field_phone_def field_date_def Account_def create_def
      new_id_def read_account_def Account_find_def serialize_def isoformat_def pad2_def
      digit_char_def str_int_def str_nat.simps status_of_def status_defs Let_def)

text \<open>
  Claim C6, amended. For every request with the content type \<^verbatim>\<open>application/json\<close> and a
  document that \<^verbatim>\<open>deserialize\<close> accepts (strings \<open>n\<close>, \<open>e\<close>, \<open>ad\<close> for \<^verbatim>\<open>name\<close>, \<^verbatim>\<open>email\<close>,
  \<^verbatim>\<open>address\<close>; a phone number that reads as \<open>p\<close>; a date that reads as \<open>dj\<close>), on every table,
  \<^verbatim>\<open>POST /accounts\<close> answers 201 with a record whose \<^verbatim>\<open>id\<close> is positive and not an id of the
  table, and \<^verbatim>\<open>GET /accounts/{id}\<close> of that id on the table after the create answers 200
  with the same record. The record equals the input on \<^verbatim>\<open>name\<close>, \<^verbatim>\<open>email\<close> and \<^verbatim>\<open>address\<close>;
  its \<^verbatim>\<open>phone_number\<close> is the input's when that is a string and the decimal text of the
  input's when that is a number; its \<^verbatim>\<open>date_joined\<close> is the input's when the input has
  one and the day of the creation when it has none.
\<close>

theorem create_then_read:
  assumes "content_type req = Some ''application/json''"
    and "payload req = Some (JObj kvs)"
    and "field_str kvs ''name'' = Some n"
    and "field_str kvs ''email'' = Some e"
    and "field_str kvs ''address'' = Some ad"
    and "field_phone kvs = Some p"
    and "field_date today kvs = Some dj"
  shows "(\<exists>h. fst (dispatch today (req\<lparr>req_method := POST, req_url := Accounts\<rparr>) d) =
           Inr \<lparr>body = Json (JObj [(''id'', JNum (new_id d)), (''name'', JStr n),
                    (''email'', JStr e), (''address'', JStr ad), (''phone_number'', JStr p),
                    (''date_joined'', JStr (isoformat dj))]),
                 status_code = 201, headers = h\<rparr>) \<and>
         fst (dispatch today (req'\<lparr>req_method := GET, req_url := Accounts_id (new_id d)\<rparr>)
                (snd (dispatch today (req\<lparr>req_method := POST, req_url := Accounts\<rparr>) d))) =
           Inr \<lparr>body = Json (JObj [(''id'', JNum (new_id d)), (''name'', JStr n),
                    (''email'', JStr e), (''address'', JStr ad), (''phone_number'', JStr p),
                    (''date_joined'', JStr (isoformat dj))]),
                 status_code = 200, headers = []\<rparr> \<and>
         0 < new_id d \<and> Account_find d (new_id d) = None \<and>
         map_of kvs ''name'' = Some (JStr n) \<and>
         map_of kvs ''email'' = Some (JStr e) \<and>
         map_of kvs ''address'' = Some (JStr ad) \<and>
         (map_of kvs ''phone_number'' = Some (JStr p) \<or>
          (\<exists>k. map_of kvs ''phone_number'' = Some (JNum k) \<and> p = str_int k)) \<and>
         (map_of kvs ''date_joined'' = Some (JStr (isoformat dj)) \<or>
          (map_of kvs ''date_joined'' = None \<and> dj = today))"
proof -
  let ?a = "Account today\<lparr>name := n, email := e, address := ad, phone_number := p,
                           date_joined := dj\<rparr>"
  let ?a' = "?a\<lparr>account_id := Some (new_id d)\<rparr>"
  have des: "deserialize today (Account today) (JObj kvs) = Inr ?a"
    using assms(3-7) by (rule deserialize_fields)
  have post: "dispatch today (req\<lparr>req_method := POST, req_url := Accounts\<rparr>) d =
      (Inr \<lparr>body = Json (serialize ?a'), status_code = 201,
            headers = [(''Location'', ''/'')]\<rparr>, d @ [?a'])"
    using assms(1,2) des by (simp add: dispatch_post create_accounts_ok)
  have ser: "serialize ?a' =
      JObj [(''id'', JNum (new_id d)), (''name'', JStr n), (''email'', JStr e),
            (''address'', JStr ad), (''phone_number'', JStr p),
            (''date_joined'', JStr (isoformat dj))]"
    by (simp add: serialize_def)
  have get: "dispatch today (req'\<lparr>req_method := GET, req_url := Accounts_id (new_id d)\<rparr>)
        (d @ [?a']) =
      (Inr \<lparr>body = Json (serialize ?a'), status_code = 200, headers = []\<rparr>, d @ [?a'])"
    by (simp add: dispatch_def read_account_found [OF Account_find_create])
  show ?thesis
    using field_str_map_of [OF assms(3)] field_str_map_of [OF assms(4)]
      field_str_map_of [OF assms(5)] field_phone_map_of [OF assms(6)]
      field_date_map_of [OF assms(7)] new_id_pos [of d] new_id_fresh [of d]
    by (simp only: post get ser fst_conv snd_conv) simp
qed

text \<open>
  Claim C6, amended, at the document with the numeric phone number and without the date,
  created on the empty table on 2022-01-01: the account gets the id 1 and is read back
  with \<^verbatim>\<open>"phone_number": "42"\<close> and \<^verbatim>\<open>"date_joined": "2022-01-01"\<close>.
\<close>

theorem create_then_read_witness:
  "fst (dispatch \<lparr>year = 2022, month = 1, day = 1\<rparr>
     \<lparr>req_method = GET, req_url = Accounts_id 1, content_type = None, payload = None\<rparr>
     (snd (dispatch \<lparr>year = 2022, month = 1, day = 1\<rparr>
       \<lparr>req_method = POST, req_url = Accounts, content_type = Some ''application/json'',
        payload = Some (JObj [(''name'', JStr ''Rofrano''),
          (''email'', JStr ''rofrano@example.com''), (''address'', JStr ''123 Main St''),
          (''phone_number'', JNum 42)])\<rparr> []))) =
     Inr \<lparr>body = Json (JObj [(''id'', JNum 1), (''name'', JStr ''Rofrano''),
              (''email'', JStr ''rofrano@example.com''), (''address'', JStr ''123 Main St''),
              (''phone_number'', JStr ''42''), (''date_joined'', JStr ''2022-01-01'')]),
           status_code = 200, headers = []\<rparr>"
  using create_then_read [where today = "\<lparr>year = 2022, month = 1, day = 1\<rparr>"
      and d = "[]" and n = "''Rofrano''" and e = "''rofrano@example.com''"
      and ad = "''123 Main St''" and p = "''42''"
      and dj = "\<lparr>year = 2022, month = 1, day = 1\<rparr>"
      and kvs = "[(''name'', JStr ''Rofrano''), (''email'', JStr ''rofrano@example.com''),
        (''address'', JStr ''123 Main St''), (''phone_number'', JNum 42)]"
      and req = "\<lparr>req_method = POST, req_url = Accounts,
        content_type = Some ''application/json'',
        payload = Some (JObj [(''name'', JStr ''Rofrano''),
          (''email'', JStr ''rofrano@example.com''), (''address'', JStr ''123 Main St''),
          (''phone_number'', JNum 42)])\<rparr>"
      and req' = "\<lparr>req_method = GET, req_url = Accounts_id 1, content_type = None,
        payload = None\<rparr>"]
  by (simp add: field_str_def field_phone_def field_date_def new_id_def isoformat_def pad2_def
      digit_char_def str_int_def str_nat.simps)

text \<open>
  Claim C7. For every table, \<^verbatim>\<open>GET /accounts\<close> answers 200 with the array of the serialized
  accounts of the table, one element for each account and in the table's order, and leaves
  the table as it was; on the empty table the array is empty. After \<^verbatim>\<open>_create_accounts\<close>
  has created N accounts on the empty table, the array has exactly N elements; and the
  creation of N accounts succeeds whenever \<^verbatim>\<open>deserialize\<close> accepts each of the N documents.
\<close>

theorem list_accounts_all:
  "dispatch today (req\<lparr>req_method := GET, req_url := Accounts\<rparr>) d =
     (Inr \<lparr>body = Json (JArr (map serialize d)), status_code = 200, headers = []\<rparr>, d) \<and>
   dispatch today (req\<lparr>req_method := GET, req_url := Accounts\<rparr>) [] =
     (Inr \<lparr>body = Json (JArr []), status_code = 200, headers = []\<rparr>, []) \<and>
   (create_accounts_bulk today js [] = Some d' \<longrightarrow>
      (\<exists>xs. dispatch today (req\<lparr>req_method := GET, req_url := Accounts\<rparr>) d' =
              (Inr \<lparr>body = Json (JArr xs), status_code = 200, headers = []\<rparr>, d') \<and>
            length xs = length js)) \<and>
   ((\<forall>j\<in>set js. \<exists>a. deserialize today (Account today) j = Inr a) \<longrightarrow>
      create_accounts_bulk today js [] \<noteq> None)"
proof -
  have list: "dispatch today (req\<lparr>req_method := GET, req_url := Accounts\<rparr>) t =
      (Inr \<lparr>body = Json (JArr (map serialize t)), status_code = 200, headers = []\<rparr>, t)" for t
    by (simp add: dispatch_def list_accounts_def Account_all_def status_defs)
  have "length (map serialize d') = length js" if "create_accounts_bulk today js [] = Some d'"
    using create_accounts_bulk_length [OF that] by simp
  then show ?thesis
    using create_accounts_bulk_succeeds [of js today "[]"] by (auto simp: list)
qed

text \<open>
  Claim C7 at two documents: created one after the other on the empty table on 2022-01-01
  they get the ids 1 and 2, and the list of the table after them has these two records.
\<close>

theorem list_accounts_all_witness:
  "create_accounts_bulk \<lparr>year = 2022, month = 1, day = 1\<rparr>
     [JObj [(''name'', JStr ''Rofrano''), (''email'', JStr ''rofrano@example.com''),
            (''address'', JStr ''123 Main St''), (''phone_number'', JStr ''555-1234''),
            (''date_joined'', JStr ''2022-01-01'')],
      JObj [(''name'', JStr ''Jeronimo''), (''email'', JStr ''jeronimo@example.com''),
            (''address'', JStr ''1 Side St''), (''phone_number'', JNum 42)]] [] =
     Some [\<lparr>account_id = Some 1, name = ''Rofrano'', email = ''rofrano@example.com'',
             address = ''123 Main St'', phone_number = ''555-1234'',
             date_joined = \<lparr>year = 2022, month = 1, day = 1\<rparr>\<rparr>,
           \<lparr>account_id = Some 2, name = ''Jeronimo'', email = ''jeronimo@example.com'',
             address = ''1 Side St'', phone_number = ''42'',
             date_joined = \<lparr>year = 2022, month = 1, day = 1\<rparr>\<rparr>] \<and>
   dispatch \<lparr>year = 2022, month = 1, day = 1\<rparr>
     \<lparr>req_method = GET, req_url = Accounts, content_type = None, payload = None\<rparr>
     [\<lparr>account_id = Some 1, name = ''Rofrano'', email = ''rofrano@example.com'',
       address = ''123 Main St'', phone_number = ''555-1234'',
       date_joined = \<lparr>year = 2022, month = 1, day = 1\<rparr>\<rparr>,
      \<lparr>account_id = Some 2, name = ''Jeronimo'', email = ''jeronimo@example.com'',
       address = ''1 Side St'', phone_number = ''42'',
       date_joined = \<lparr>year = 2022, month = 1, day = 1\<rparr>\<rparr>] =
     (Inr \<lparr>body = Json (JArr
        [JObj [(''id'', JNum 1), (''name'', JStr ''Rofrano''),
               (''email'', JStr ''rofrano@example.com''), (''address'', JStr ''123 Main St''),
               (''phone_number'', JStr ''555-1234''), (''date_joined'', JStr ''2022-01-01'')],
         JObj [(''id'', JNum 2), (''name'', JStr ''Jeronimo''),
               (''email'', JStr ''jeronimo@example.com''), (''address'', JStr ''1 Side St''),
               (''phone_number'', JStr ''42''), (''date_joined'', JStr ''2022-01-01'')]]),
        status_code = 200, headers = []\<rparr>,
      [\<lparr>account_id = Some 1, name = ''Rofrano'', email = ''rofrano@example.com'',
        address = ''123 Main St'', phone_number = ''555-1234'',
        date_joined = \<lparr>year = 2022, month = 1, day = 1\<rparr>\<rparr>,
       \<lparr>account_id = Some 2, name = ''Jeronimo'', email = ''jeronimo@example.com'',
        address = ''1 Side St'', phone_number = ''42'',
        date_joined = \<lparr>year = 2022, month = 1, day = 1\<rparr>\<rparr>])"
  using list_accounts_all [where today = "\<lparr>year = 2022, month = 1, day = 1\<rparr>"
      and req = "\<lparr>req_method = GET, req_url = Accounts, content_type = None, payload = None\<rparr>"
      and js = "[JObj [(''name'', JStr ''Rofrano''), (''email'', JStr ''rofrano@example.com''),
            (''address'', JStr ''123 Main St''), (''phone_number'', JStr ''555-1234''),
            (''date_joined'', JStr ''2022-01-01'')],
        JObj [(''name'', JStr ''Jeronimo''), (''email'', JStr ''jeronimo@example.com''),
            (''address'', JStr ''1 Side St''), (''phone_number'', JNum 42)]]"
      and d = "[\<lparr>account_id = Some 1, name = ''Rofrano'', email = ''rofrano@example.com'',
          address = ''123 Main St'', phone_number = ''555-1234'',
          date_joined = \<lparr>year = 2022, month = 1, day = 1\<rparr>\<rparr>,
        \<lparr>account_id = Some 2, name = ''Jeronimo'', email = ''jeronimo@example.com'',
          address = ''1 Side St'', phone_number = ''42'',
          date_joined = \<lparr>year = 2022, month = 1, day = 1\<rparr>\<rparr>]"
      and d' = "[\<lparr>account_id = Some 1, name = ''Rofrano'', email = ''rofrano@example.com'',
          address = ''123 Main St'', phone_number = ''555-1234'',
          date_joined = \<lparr>year = 2022, month = 1, day = 1\<rparr>\<rparr>,
        \<lparr>account_id = Some 2, name = ''Jeronimo'', email = ''jeronimo@example.com'',
          address = ''1 Side St'', phone_number = ''42'',
          date_joined = \<lparr>year = 2022, month = 1, day = 1\<rparr>\<rparr>]"]
  by (simp add: dispatch_def create_accounts_def check_content_type_def
      get_json_application_json
      deserialize_def field_str_def field_phone_def field_date_def Account_def create_def
      new_id_def number2_def digit_val_def valid_date_def days_in_month_def
      serialize_def isoformat_def pad2_def digit_char_def str_int_def str_nat.simps
      status_of_def status_defs Let_def)

text \<open>
  Claim C8. For every table of accounts and every request, \<^verbatim>\<open>GET /health\<close> answers 200 with
  the document \<^verbatim>\<open>{"status":"OK"}\<close> and \<^verbatim>\<open>GET /\<close> answers 200 with the name and the
  version of the service; neither answer depends on the table, and the table after the
  request is the table before it.
\<close>

theorem health_index_fixed:
  "dispatch today (req\<lparr>req_method := GET, req_url := Health\<rparr>) d =
     (Inr \<lparr>body = Json (JObj [(''status'', JStr ''OK'')]), status_code = 200, headers = []\<rparr>, d) \<and>
   dispatch today (req\<lparr>req_method := GET, req_url := Root\<rparr>) d =
     (Inr \<lparr>body = Json (JObj [(''name'', JStr ''Account REST API Service''),
                                 (''version'', JStr ''1.0'')]),
           status_code = 200, headers = []\<rparr>, d)"
  by (simp add: dispatch_def health_def index_def status_defs)

text \<open>
  Claim C9. The check of the content type passes exactly when the header is the string
  \<^verbatim>\<open>application/json\<close>; with any other header, or none, \<^verbatim>\<open>POST /accounts\<close> is refused with
  415 and the table is left as it was.
\<close>

theorem content_type_exact:
  "((check_content_type req ''application/json'' = Inr ()) =
      (content_type req = Some ''application/json'')) \<and>
   (content_type req \<noteq> Some ''application/json'' \<longrightarrow>
      dispatch today (req\<lparr>req_method := POST, req_url := Accounts\<rparr>) d =
        (Inl (HTTPException 415 (Some ''Content-Type must be application/json'')), d))"
  by (simp add: check_content_type_iff dispatch_post create_accounts_415)

text \<open>
  Claim C9 at two requests: the parameterized media type
  \<^verbatim>\<open>application/json; charset=utf-8\<close> and a request without the header. Both are refused
  with 415.
\<close>

theorem content_type_exact_witness:
  "dispatch \<lparr>year = 2022, month = 1, day = 1\<rparr>
     \<lparr>req_method = POST, req_url = Accounts,
      content_type = Some ''application/json; charset=utf-8'', payload = Some (JObj [])\<rparr> [] =
     (Inl (HTTPException 415 (Some ''Content-Type must be application/json'')), []) \<and>
   dispatch \<lparr>year = 2022, month = 1, day = 1\<rparr>
     \<lparr>req_method = POST, req_url = Accounts, content_type = None, payload = Some (JObj [])\<rparr> [] =
     (Inl (HTTPException 415 (Some ''Content-Type must be application/json'')), [])"
  using content_type_exact [of "\<lparr>req_method = POST, req_url = Accounts,
      content_type = Some ''application/json; charset=utf-8'', payload = Some (JObj [])\<rparr>"
      "\<lparr>year = 2022, month = 1, day = 1\<rparr>" "[]"]
    content_type_exact [of "\<lparr>req_method = POST, req_url = Accounts,
      content_type = None, payload = Some (JObj [])\<rparr>"
      "\<lparr>year = 2022, month = 1, day = 1\<rparr>" "[]"]
  by simp

text \<open>
  Claim C10. When \<^verbatim>\<open>POST /accounts\<close> answers 415 or 400, the table after the request is the
  table before it: \<^verbatim>\<open>check_content_type\<close>, \<^verbatim>\<open>get_json\<close> and \<^verbatim>\<open>deserialize\<close> all come
  before \<^verbatim>\<open>account.create()\<close>.
\<close>

theorem create_accounts_atomic:
  "status_of (fst (dispatch today (req\<lparr>req_method := POST, req_url := Accounts\<rparr>) d)) = 415 \<or>
   status_of (fst (dispatch today (req\<lparr>req_method := POST, req_url := Accounts\<rparr>) d)) = 400 \<Longrightarrow>
   snd (dispatch today (req\<lparr>req_method := POST, req_url := Accounts\<rparr>) d) = d"
proof -
  let ?r = "create_accounts today (req\<lparr>req_method := POST, req_url := Accounts\<rparr>) d"
  assume st: "status_of (fst (dispatch today (req\<lparr>req_method := POST, req_url := Accounts\<rparr>) d)) = 415 \<or>
   status_of (fst (dispatch today (req\<lparr>req_method := POST, req_url := Accounts\<rparr>) d)) = 400"
  show ?thesis
  proof (cases "fst ?r")
    case (Inl e)
    then have "?r = (Inl e, snd ?r)" by (simp add: prod_eq_iff)
    then have "snd ?r = d" by (rule create_accounts_error)
    then show ?thesis by (simp add: dispatch_post)
  next
    case (Inr r)
    then have "?r = (Inr r, snd ?r)" by (simp add: prod_eq_iff)
    then have "status_code r = 201" by (rule create_accounts_status)
    with st Inr show ?thesis by (simp add: dispatch_post status_of_def)
  qed
qed

text \<open>
  Claim C10 at the requests of \<^verbatim>\<open>test_unsupported_media_type\<close> (415) and of
  \<^verbatim>\<open>test_bad_request\<close> (400).
\<close>

theorem create_accounts_atomic_witness:
  "snd (dispatch \<lparr>year = 2022, month = 1, day = 1\<rparr>
          \<lparr>req_method = POST, req_url = Accounts, content_type = Some ''test/html'',
           payload = Some (JObj [(''name'', JStr ''not enough data'')])\<rparr> []) = [] \<and>
   status_of (fst (dispatch \<lparr>year = 2022, month = 1, day = 1\<rparr>
          \<lparr>req_method = POST, req_url = Accounts, content_type = Some ''test/html'',
           payload = Some (JObj [(''name'', JStr ''not enough data'')])\<rparr> [])) = 415 \<and>
   snd (dispatch \<lparr>year = 2022, month = 1, day = 1\<rparr>
          \<lparr>req_method = POST, req_url = Accounts, content_type = Some ''application/json'',
           payload = Some (JObj [(''name'', JStr ''not enough data'')])\<rparr> []) = [] \<and>
   status_of (fst (dispatch \<lparr>year = 2022, month = 1, day = 1\<rparr>
          \<lparr>req_method = POST, req_url = Accounts, content_type = Some ''application/json'',
           payload = Some (JObj [(''name'', JStr ''not enough data'')])\<rparr> [])) = 400"
  using create_accounts_atomic [of "\<lparr>year = 2022, month = 1, day = 1\<rparr>"
      "\<lparr>req_method = POST, req_url = Accounts, content_type = Some ''test/html'',
        payload = Some (JObj [(''name'', JStr ''not enough data'')])\<rparr>" "[]"]
    create_accounts_atomic [of "\<lparr>year = 2022, month = 1, day = 1\<rparr>"
      "\<lparr>req_method = POST, req_url = Accounts, content_type = Some ''application/json'',
        payload = Some (JObj [(''name'', JStr ''not enough data'')])\<rparr>" "[]"]
  by (simp add: dispatch_def create_accounts_def check_content_type_def
      get_json_application_json
      deserialize_def field_str_def status_of_def status_defs Account_def)

end
